theory Spec2Isabelle
  imports Complex_Main "HOL-Library.Sublist"
begin

section \<open>Numbers\<close>

text \<open>
  A JavaScript number is modelled by its exact value: a finite number is a rational, and
  the three non-finite results of an arithmetic operation are kept apart from it. Rounding
  of binary floating point is not modelled; where a statement of the specification is
  refuted below, the input is a binary fraction on which every operation of the source is
  exact. Strings are ASCII.
\<close>

datatype jsnum = Fin rat | Inf bool | NaN

text \<open>\<open>Inf True\<close> is \<open>+Infinity\<close>, \<open>Inf False\<close> is \<open>-Infinity\<close>.\<close>

fun js_neg :: "jsnum \<Rightarrow> jsnum" where
  "js_neg (Fin a) = Fin (- a)"
| "js_neg (Inf s) = Inf (\<not> s)"
| "js_neg NaN = NaN"

fun js_add :: "jsnum \<Rightarrow> jsnum \<Rightarrow> jsnum" where
  "js_add (Fin a) (Fin b) = Fin (a + b)"
| "js_add (Inf s) (Fin b) = Inf s"
| "js_add (Fin a) (Inf t) = Inf t"
| "js_add (Inf s) (Inf t) = (if s = t then Inf s else NaN)"
| "js_add NaN b = NaN"
| "js_add a NaN = NaN"

definition js_sub :: "jsnum \<Rightarrow> jsnum \<Rightarrow> jsnum" where
  "js_sub a b = js_add a (js_neg b)"

fun js_mul :: "jsnum \<Rightarrow> jsnum \<Rightarrow> jsnum" where
  "js_mul (Fin a) (Fin b) = Fin (a * b)"
| "js_mul (Inf s) (Fin b) = (if b = 0 then NaN else Inf (s = (0 < b)))"
| "js_mul (Fin a) (Inf t) = (if a = 0 then NaN else Inf (t = (0 < a)))"
| "js_mul (Inf s) (Inf t) = Inf (s = t)"
| "js_mul NaN b = NaN"
| "js_mul a NaN = NaN"

text \<open>
  Division of two finite numbers. The divisors of the source are never negative zero, so
  the sign of an infinite quotient is the sign of the dividend.
\<close>

definition js_div :: "rat \<Rightarrow> rat \<Rightarrow> jsnum" where
  "js_div a b = (if b \<noteq> 0 then Fin (a / b) else if a = 0 then NaN else Inf (0 < a))"

section \<open>Formatter\<close>

definition digit_char :: "nat \<Rightarrow> char" where
  "digit_char d = ''0123456789'' ! (d mod 10)"

fun decimal :: "nat \<Rightarrow> string" where
  "decimal n = (if n < 10 then [digit_char n] else decimal (n div 10) @ [digit_char (n mod 10)])"

declare decimal.simps [simp del]

text \<open>
  The integer \<open>n\<close> for which \<open>n - a\<close> is as close to zero as possible, the larger one
  of two (\<open>a\<close> is not negative where it is used).
\<close>

definition round_half_up :: "rat \<Rightarrow> nat" where
  "round_half_up a = nat \<lfloor>a + 1 / 2\<rfloor>"

text \<open>
  \<open>Number.prototype.toFixed\<close> on a finite number below \<open>10^21\<close> in magnitude, as
  ECMAScript defines it: the sign, then the digits of the rounded value of \<open>|x| * 10^f\<close>,
  padded with zeros to \<open>f + 1\<close> digits, with the point before the last \<open>f\<close> digits.
\<close>

definition toFixed :: "rat \<Rightarrow> nat \<Rightarrow> string" where
  "toFixed x f =
     (let s = (if x < 0 then ''-'' else '''');
          n = round_half_up (\<bar>x\<bar> * 10 ^ f);
          m = decimal n
      in if f = 0 then s @ m
         else let m' = (if length m \<le> f then replicate (f + 1 - length m) (CHR ''0'') @ m
                        else m);
                  k = length m'
              in s @ take (k - f) m' @ ''.'' @ drop (k - f) m')"

fun js_toFixed :: "jsnum \<Rightarrow> nat \<Rightarrow> string" where
  "js_toFixed (Fin x) f = toFixed x f"
| "js_toFixed (Inf s) f = (if s then ''Infinity'' else ''-Infinity'')"
| "js_toFixed NaN f = ''NaN''"

text \<open>Grouping of an integer's digits in threes from the right; the list is reversed.\<close>

fun group_rev :: "string \<Rightarrow> string" where
  "group_rev (a # b # c # d # rest) = a # b # c # CHR '','' # group_rev (d # rest)"
| "group_rev m = m"

definition group3 :: "string \<Rightarrow> string" where
  "group3 m = rev (group_rev (rev m))"

text \<open>
  \<open>new Intl.NumberFormat('en-US', {style: 'currency', currency: 'USD'}).format\<close> on a
  finite number: the sign, the dollar sign, the integer part grouped in threes by commas,
  the point and two fraction digits, after rounding half away from zero to cents.
  \<open>minimumFractionDigits: 2\<close> is what the currency gives already.
\<close>

definition currencyUSD :: "rat \<Rightarrow> string" where
  "currencyUSD x =
     (let s = (if x < 0 then ''-'' else '''');
          n = round_half_up (\<bar>x\<bar> * 100)
      in s @ ''$'' @ group3 (decimal (n div 100)) @ ''.''
           @ [digit_char (n mod 100 div 10), digit_char (n mod 10)])"

text \<open>
  \<open>formatPrice\<close> of the card component. The argument is \<open>None\<close> when the price is
  absent (\<open>null\<close> or \<open>undefined\<close>); \<open>!price\<close> holds for an absent price and for zero.
\<close>

definition formatPrice_card :: "rat option \<Rightarrow> string" where
  "formatPrice_card price =
     (case price of
        None \<Rightarrow> ''$0.00''
      | Some p \<Rightarrow>
          if p = 0 then ''$0.00''
          else if p < 1 / 100 then ''$'' @ toFixed p 6
          else if p < 1 then ''$'' @ toFixed p 4
          else if p < 1000 then ''$'' @ toFixed p 2
          else currencyUSD p)"

text \<open>\<open>formatPrice\<close> of the modal component.\<close>

definition formatPrice_modal :: "rat option \<Rightarrow> string" where
  "formatPrice_modal price =
     (case price of
        None \<Rightarrow> ''$0.00''
      | Some p \<Rightarrow>
          if p = 0 then ''$0.00''
          else if p < 1 / 100 then ''$'' @ toFixed p 6
          else if p < 1 then ''$'' @ toFixed p 4
          else currencyUSD p)"



section \<open>Chart geometry\<close>

text \<open>
  A point of the chart: \<open>date\<close> is the timestamp of the sample in milliseconds, from
  which the source builds its \<open>Date\<close>.
\<close>

record sample =
  date :: int
  price :: rat

definition W :: rat where "W = 800"
definition H :: rat where "H = 300"

text \<open>The four fields of \<open>PAD\<close>.\<close>

definition PAD_top :: rat where "PAD_top = 20"
definition PAD_right :: rat where "PAD_right = 20"
definition PAD_bottom :: rat where "PAD_bottom = 40"
definition PAD_left :: rat where "PAD_left = 60"

definition chartW :: rat where "chartW = W - PAD_left - PAD_right"
definition chartH :: rat where "chartH = H - PAD_top - PAD_bottom"

text \<open>
  The functions below are the local bindings of \<open>renderChart\<close>, with the series
  \<open>chartData\<close> as their first argument. \<open>renderChart\<close> returns before it computes any of
  them when the series is empty, so \<open>minP\<close> and \<open>maxP\<close> are only read on a series with a
  sample.
\<close>

definition prices :: "sample list \<Rightarrow> rat list" where
  "prices chartData = map price chartData"

definition minP :: "sample list \<Rightarrow> rat" where
  "minP chartData = Min (set (prices chartData))"

definition maxP :: "sample list \<Rightarrow> rat" where
  "maxP chartData = Max (set (prices chartData))"

definition rangeP :: "sample list \<Rightarrow> rat" where
  "rangeP chartData =
     (if maxP chartData - minP chartData = 0 then 1 else maxP chartData - minP chartData)"

definition scaleX :: "sample list \<Rightarrow> rat \<Rightarrow> jsnum" where
  "scaleX chartData i =
     js_add (Fin PAD_left) (js_mul (js_div i (of_nat (length chartData) - 1)) (Fin chartW))"

definition scaleY :: "sample list \<Rightarrow> rat \<Rightarrow> rat" where
  "scaleY chartData p =
     PAD_top + chartH - ((p - minP chartData) / rangeP chartData) * chartH"

fun join :: "string \<Rightarrow> string list \<Rightarrow> string" where
  "join sep [] = []"
| "join sep [s] = s"
| "join sep (s # t # ts) = s @ sep @ join sep (t # ts)"

definition linePath :: "sample list \<Rightarrow> string" where
  "linePath chartData =
     join '' ''
       (map (\<lambda>(i, d). (if i = 0 then ''M'' else ''L'') @ '' ''
               @ js_toFixed (scaleX chartData (of_nat i)) 1 @ '',''
               @ toFixed (scaleY chartData (price d)) 1)
            (enumerate 0 chartData))"

definition yLabels :: nat where "yLabels = 5"

definition yStep :: rat where "yStep = chartH / (of_nat yLabels - 1)"

record ytick =
  tick_y :: rat
  tick_price :: rat
  tick_label :: string

definition yLabel :: "rat \<Rightarrow> string" where
  "yLabel p =
     (if 1000 \<le> p then ''$'' @ toFixed (p / 1000) 1 @ ''k''
      else if p < 1 then ''$'' @ toFixed p 4
      else ''$'' @ toFixed p 0)"

definition yTick :: "sample list \<Rightarrow> nat \<Rightarrow> ytick" where
  "yTick chartData i =
     (let y = PAD_top + of_nat i * yStep;
          p = maxP chartData - (of_nat i / (of_nat yLabels - 1)) * rangeP chartData
      in \<lparr>tick_y = y, tick_price = p, tick_label = yLabel p\<rparr>)"

definition yTicks :: "sample list \<Rightarrow> ytick list" where
  "yTicks chartData = map (yTick chartData) [0..<yLabels]"

text \<open>The invisible rectangle over sample \<open>i\<close> that takes the mouse events.\<close>

record rect =
  rect_x :: jsnum
  rect_y :: rat
  rect_width :: rat
  rect_height :: rat

definition hoverRect :: "sample list \<Rightarrow> nat \<Rightarrow> rect" where
  "hoverRect chartData i =
     \<lparr>rect_x = js_sub (scaleX chartData (of_nat i))
                 (Fin (chartW / of_nat (length chartData) / 2)),
      rect_y = PAD_top,
      rect_width = chartW / of_nat (length chartData),
      rect_height = chartH\<rparr>"

text \<open>
  The horizontal extent of a rectangle. A rectangle whose \<open>x\<close> is not a finite number
  has no extent here.
\<close>

definition rect_covers :: "rect \<Rightarrow> rat \<Rightarrow> bool" where
  "rect_covers r px =
     (case rect_x r of
        Fin a \<Rightarrow> a \<le> px \<and> px < a + rect_width r
      | Inf s \<Rightarrow> False
      | NaN \<Rightarrow> False)"

text \<open>
  The value \<open>hovered\<close> holds: the sample with the pixel position of its marker (the
  fields \<open>x\<close> and \<open>y\<close> of the source).
\<close>

record hover = sample +
  hover_x :: jsnum
  hover_y :: rat

definition hoverPoint :: "sample list \<Rightarrow> nat \<Rightarrow> hover" where
  "hoverPoint chartData i =
     (let d = chartData ! i
      in \<lparr>date = date d, price = price d,
          hover_x = scaleX chartData (of_nat i), hover_y = scaleY chartData (price d)\<rparr>)"

record frame =
  frame_linePath :: string
  frame_yTicks :: "ytick list"
  frame_rects :: "rect list"

text \<open>\<open>renderChart\<close>: nothing is drawn for an empty series.\<close>

definition renderChart :: "sample list \<Rightarrow> frame option" where
  "renderChart chartData =
     (if length chartData = 0 then None
      else Some \<lparr>frame_linePath = linePath chartData,
                 frame_yTicks = yTicks chartData,
                 frame_rects = map (hoverRect chartData) [0..<length chartData]\<rparr>)"

section \<open>Instruments and the search filter\<close>

text \<open>The fields of a coin that the modelled code reads; \<open>coin_id\<close> is the field \<open>id\<close>.\<close>

record coin =
  coin_id :: string
  name :: string
  symbol :: string
  current_price :: "rat option"

text \<open>
  \<open>String.prototype.toLowerCase\<close> and \<open>String.prototype.includes\<close> (here
  \<open>str_includes\<close>), on ASCII strings.
\<close>

definition toLowerCase :: "string \<Rightarrow> string" where
  "toLowerCase s =
     map (\<lambda>c. case map_of (zip ''ABCDEFGHIJKLMNOPQRSTUVWXYZ'' ''abcdefghijklmnopqrstuvwxyz'') c of
                 Some l \<Rightarrow> l
               | None \<Rightarrow> c) s"

fun str_includes :: "string \<Rightarrow> string \<Rightarrow> bool" where
  "str_includes [] t = (t = [])"
| "str_includes (c # cs) t = (prefix t (c # cs) \<or> str_includes cs t)"

text \<open>The body of the effect that derives the visible list.\<close>

definition filterCryptos :: "string \<Rightarrow> coin list \<Rightarrow> coin list" where
  "filterCryptos search cryptos =
     (let term = toLowerCase search
      in filter (\<lambda>coin. str_includes (toLowerCase (name coin)) term
                        \<or> str_includes (toLowerCase (symbol coin)) term) cryptos)"

section \<open>The chart modal\<close>

text \<open>
  The state of one mounted \<open>CryptoModal\<close>: its \<open>coin\<close> prop, its four state
  variables, and the requests of \<open>fetchChartData\<close> that have not resolved yet, each with
  the \<open>coin.id\<close> and \<open>days\<close> its call has closed over, oldest first.
\<close>

record modal =
  coin :: coin
  chartData :: "sample list"
  loadingChart :: bool
  days :: nat
  hovered :: "hover option"
  inflight :: "(string \<times> nat) list"

text \<open>
  What one request resolves to: the \<open>prices\<close> array of the response, or a failure (the
  fetch rejects, the body is not JSON, or it has no \<open>prices\<close> array).
\<close>

datatype chart_response = Prices "(int \<times> rat) list" | Failure

definition points :: "(int \<times> rat) list \<Rightarrow> sample list" where
  "points ps = map (\<lambda>(timestamp, p). \<lparr>date = timestamp, price = p\<rparr>) ps"

text \<open>\<open>fetchChartData\<close> up to its first \<open>await\<close>.\<close>

definition fetchChartData :: "modal \<Rightarrow> modal" where
  "fetchChartData s =
     s\<lparr>loadingChart := True, inflight := inflight s @ [(coin_id (coin s), days s)]\<rparr>"

text \<open>
  The rest of \<open>fetchChartData\<close>, run when request \<open>k\<close> of the pending ones resolves to
  \<open>r\<close>: the \<open>try\<close> block stores the points, the \<open>catch\<close> block only logs, and the
  \<open>finally\<close> block ends the loading state.
\<close>

definition fetchChartData_resume :: "nat \<Rightarrow> chart_response \<Rightarrow> modal \<Rightarrow> modal" where
  "fetchChartData_resume k r s =
     (if k < length (inflight s) then
        let s' = s\<lparr>inflight := take k (inflight s) @ drop (Suc k) (inflight s)\<rparr>
        in (case r of
              Prices ps \<Rightarrow> s'\<lparr>chartData := points ps, loadingChart := False\<rparr>
            | Failure \<Rightarrow> s'\<lparr>loadingChart := False\<rparr>)
      else s)"

text \<open>
  Mounting runs the effect once; afterwards the effect runs again whenever \<open>coin.id\<close> or
  \<open>days\<close> has changed.
\<close>

definition mount :: "coin \<Rightarrow> modal" where
  "mount c =
     fetchChartData \<lparr>coin = c, chartData = [], loadingChart = True, days = 7,
                     hovered = None, inflight = []\<rparr>"

definition setDays :: "nat \<Rightarrow> modal \<Rightarrow> modal" where
  "setDays d s = (if d = days s then s else fetchChartData (s\<lparr>days := d\<rparr>))"

text \<open>The parent passes another coin while the modal stays mounted.\<close>

definition setCoin :: "coin \<Rightarrow> modal \<Rightarrow> modal" where
  "setCoin c s =
     (if coin_id c = coin_id (coin s) then s\<lparr>coin := c\<rparr> else fetchChartData (s\<lparr>coin := c\<rparr>))"

text \<open>
  The two mouse handlers of the chart: \<open>onMouseLeave\<close> of the \<open>svg\<close> element and
  \<open>onMouseEnter\<close> of rectangle \<open>i\<close>, which exists for each index of the series.
\<close>

definition onMouseLeave :: "modal \<Rightarrow> modal" where
  "onMouseLeave s = s\<lparr>hovered := None\<rparr>"

definition onMouseEnter :: "nat \<Rightarrow> modal \<Rightarrow> modal" where
  "onMouseEnter i s =
     (if i < length (chartData s) then s\<lparr>hovered := Some (hoverPoint (chartData s) i)\<rparr>
      else s)"

section \<open>The instrument list\<close>

record app =
  cryptos :: "coin list"
  filtered :: "coin list"
  search :: string
  selected :: "coin option"
  loading :: bool
  error :: "string option"

text \<open>
  What the request of \<open>fetchCryptos\<close> resolves to: the fetch rejects, or a response
  arrives with a status and a body, \<open>None\<close> when the body does not parse.
\<close>

datatype markets_response = Rejected | Http nat "coin list option"

text \<open>\<open>response.ok\<close>: the status is in the range 200 to 299.\<close>

definition response_ok :: "nat \<Rightarrow> bool" where
  "response_ok status = (200 \<le> status \<and> status \<le> 299)"

text \<open>The effect on \<open>[search, cryptos]\<close>.\<close>

definition searchEffect :: "app \<Rightarrow> app" where
  "searchEffect s = s\<lparr>filtered := filterCryptos (search s) (cryptos s)\<rparr>"

definition setSearch :: "string \<Rightarrow> app \<Rightarrow> app" where
  "setSearch v s = searchEffect (s\<lparr>search := v\<rparr>)"

text \<open>\<open>fetchCryptos\<close> up to its \<open>await\<close>, and its \<open>catch\<close> block.\<close>

definition fetchCryptos :: "app \<Rightarrow> app" where
  "fetchCryptos s = s\<lparr>error := None\<rparr>"

definition fetchCryptos_catch :: "app \<Rightarrow> app" where
  "fetchCryptos_catch s =
     s\<lparr>error := Some ''Failed to load data. Please try again.'', loading := False\<rparr>"

text \<open>
  The rest of \<open>fetchCryptos\<close>, run when its request resolves to \<open>r\<close>. A stored list is a
  new array, so the effect on \<open>[search, cryptos]\<close> runs after it.
\<close>

definition fetchCryptos_resume :: "markets_response \<Rightarrow> app \<Rightarrow> app" where
  "fetchCryptos_resume r s =
     (case r of
        Rejected \<Rightarrow> fetchCryptos_catch s
      | Http status body \<Rightarrow>
          if \<not> response_ok status then fetchCryptos_catch s
          else (case body of
                  None \<Rightarrow> fetchCryptos_catch s
                | Some data \<Rightarrow>
                    searchEffect (s\<lparr>cryptos := data, filtered := data, loading := False\<rparr>)))"

text \<open>What \<open>App\<close> renders from a state.\<close>

record view =
  header_total :: nat
  loading_shown :: bool
  error_shown :: "string option"
  list_shown :: "coin list option"
  modal_shown :: "coin option"

definition truthy :: "string option \<Rightarrow> bool" where
  "truthy e = (case e of None \<Rightarrow> False | Some m \<Rightarrow> m \<noteq> [])"

definition render :: "app \<Rightarrow> view" where
  "render s =
     \<lparr>header_total = length (filtered s),
      loading_shown = loading s,
      error_shown = (if truthy (error s) then error s else None),
      list_shown = (if \<not> loading s \<and> \<not> truthy (error s) then Some (filtered s) else None),
      modal_shown = selected s\<rparr>"

section \<open>Properties of the formatter\<close>

lemma floor_numeral_quotient:
  "\<lfloor>(numeral a :: rat) / numeral b\<rfloor> = numeral a div numeral b"
  using floor_divide_of_int_eq [of "numeral a" "numeral b", where ?'a = rat] by simp

lemma decimal_numeral:
  "decimal (numeral k) =
     (if (numeral k :: nat) < 10 then [digit_char (numeral k)]
      else decimal (numeral k div 10) @ [digit_char (numeral k mod 10)])"
  by (rule decimal.simps)

lemma decimal_0: "decimal 0 = ''0''"
  by (simp add: decimal.simps digit_char_def)

lemma decimal_1: "decimal (Suc 0) = ''1''"
  by (simp add: decimal.simps digit_char_def)

lemma replicate_numeral: "replicate (numeral k) x = x # replicate (pred_numeral k) x"
  by (simp add: numeral_eq_Suc)

lemmas evals = round_half_up_def floor_numeral_quotient decimal_numeral decimal_0 decimal_1
  digit_char_def replicate_numeral






lemma decimal_nonempty: "decimal n \<noteq> []"
  by (subst decimal.simps) simp









lemma decimal_split100:
  assumes "100 \<le> n"
  shows "decimal n = decimal (n div 100) @ [digit_char (n mod 100 div 10), digit_char (n mod 10)]"
proof -
  have a: "decimal n = decimal (n div 10) @ [digit_char (n mod 10)]"
    using assms by (subst decimal.simps) simp
  have "\<not> n div 10 < 10" using assms by simp
  then have b: "decimal (n div 10) = decimal (n div 10 div 10) @ [digit_char (n div 10 mod 10)]"
    by (subst decimal.simps) simp
  have c: "n div 10 div 10 = n div 100" by (simp add: div_mult2_eq [symmetric])
  have "n mod 100 = 10 * (n div 10 mod 10) + n mod 10"
    using mod_mult2_eq [of n 10 10] by simp
  then have d: "n div 10 mod 10 = n mod 100 div 10" by simp
  show ?thesis using a b c d by simp
qed

lemma decimal_length3: "n < 1000 \<Longrightarrow> length (decimal n) \<le> 3"
  by (subst decimal.simps, subst decimal.simps, subst decimal.simps) simp

lemma group_rev_short: "length m \<le> 3 \<Longrightarrow> group_rev m = m"
  by (induction m rule: group_rev.induct) auto

lemma group3_short: "length m \<le> 3 \<Longrightarrow> group3 m = m"
  by (simp add: group3_def group_rev_short)

lemma cents_bounds:
  assumes "1 \<le> c" "c < 199999 / 200"
  shows "100 \<le> round_half_up (\<bar>c\<bar> * 100) \<and> round_half_up (\<bar>c\<bar> * 100) < 100000"
proof -
  have pos: "\<bar>c\<bar> = c" using assms by simp
  have "(100::int) \<le> \<lfloor>c * 100 + 1 / 2\<rfloor>"
    using assms by (simp add: le_floor_iff)
  moreover have "\<lfloor>c * 100 + 1 / 2\<rfloor> < (100000::int)"
    using assms by (simp add: floor_less_iff)
  ultimately show ?thesis unfolding round_half_up_def pos by linarith
qed

lemma toFixed_placed:
  assumes "0 \<le> x" "0 < f" "decimal (round_half_up (x * 10 ^ f)) = m" "f < length m"
  shows "toFixed x f = take (length m - f) m @ ''.'' @ drop (length m - f) m"
proof -
  have a: "\<bar>x\<bar> = x" "(x < 0) = False" using assms(1) by simp_all
  show ?thesis
    unfolding toFixed_def Let_def a assms(3) using assms(2,4) by simp
qed

lemma currencyUSD_placed:
  assumes "0 \<le> x" "round_half_up (x * 100) = n"
  shows "currencyUSD x = ''$'' @ group3 (decimal (n div 100)) @ ''.''
           @ [digit_char (n mod 100 div 10), digit_char (n mod 10)]"
proof -
  have a: "\<bar>x\<bar> = x" "(x < 0) = False" using assms(1) by simp_all
  show ?thesis
    unfolding currencyUSD_def Let_def a assms(2) by simp
qed

lemma toFixed2_currencyUSD:
  assumes "1 \<le> c" "c < 199999 / 200"
  shows "''$'' @ toFixed c 2 = currencyUSD c"
proof -
  define n where "n = round_half_up (c * 100)"
  have pos: "\<bar>c\<bar> = c" using assms by simp
  have n: "100 \<le> n" "n < 100000"
    using cents_bounds [OF assms] unfolding pos n_def by simp_all
  define q where "q = decimal (n div 100)"
  define r where "r = [digit_char (n mod 100 div 10), digit_char (n mod 10)]"
  have m: "decimal n = q @ r" unfolding q_def r_def using n(1) by (rule decimal_split100)
  have lr: "length r = 2" by (simp add: r_def)
  have "n div 100 < 1000" using n by simp
  then have "length q \<le> 3" unfolding q_def by (rule decimal_length3)
  then have g: "group3 q = q" by (rule group3_short)
  have c0: "0 \<le> c" using assms by simp
  have cur: "currencyUSD c = ''$'' @ q @ ''.'' @ r"
    using currencyUSD_placed [OF c0 n_def [symmetric]] g unfolding q_def r_def by simp
  have n2: "decimal (round_half_up (c * 10 ^ 2)) = q @ r"
    using m unfolding n_def by simp
  have "toFixed c 2 = take (length (q @ r) - 2) (q @ r) @ ''.'' @ drop (length (q @ r) - 2) (q @ r)"
    by (rule toFixed_placed [OF c0 _ n2]) (simp_all add: lr q_def decimal_nonempty)
  then have "toFixed c 2 = q @ ''.'' @ r" using lr by simp
  then show ?thesis using cur by simp
qed

lemma toFixed2_rounds_to_1000:
  assumes "199999 / 200 \<le> c" "c < 1000"
  shows "toFixed c 2 = ''1000.00''"
proof -
  have c0: "0 \<le> c" using assms by simp
  have "\<lfloor>c * 100 + 1 / 2\<rfloor> = (100000::int)"
    using assms by (simp add: floor_eq_iff)
  then have n: "round_half_up (c * 10 ^ 2) = 100000"
    unfolding round_half_up_def by simp
  have d: "decimal (round_half_up (c * 10 ^ 2)) = ''100000''"
    unfolding n by (simp add: evals)
  show ?thesis
    using toFixed_placed [OF c0 _ d] by simp
qed







section \<open>Formatter: the claims\<close>




text \<open>Outside the prices that round up to 1000.00 the two copies agree.\<close>

lemma formatPrice_copies_agree:
  assumes "x < 199999 / 200 \<or> 1000 \<le> x"
  shows "formatPrice_card (Some x) = formatPrice_modal (Some x)"
proof (cases "1 \<le> x \<and> x < 1000")
  case True
  then have "''$'' @ toFixed x 2 = currencyUSD x"
    using assms by (intro toFixed2_currencyUSD) auto
  then show ?thesis
    using True by (simp add: formatPrice_card_def formatPrice_modal_def)
next
  case False
  then show ?thesis
    by (auto simp: formatPrice_card_def formatPrice_modal_def)
qed

text \<open>
  Claim C10: the card's and the modal's \<open>formatPrice\<close> return the same string for
  every number. At 999.998046875 they do not: the card prints \<open>$1000.00\<close>, the modal
  \<open>$1,000.00\<close>.
\<close>

theorem formatPrice_copies_differ:
  "formatPrice_card (Some (511999 / 512)) = ''$1000.00''
   \<and> formatPrice_modal (Some (511999 / 512)) = ''$1,000.00''
   \<and> formatPrice_card (Some (511999 / 512)) \<noteq> formatPrice_modal (Some (511999 / 512))"
proof -
  have a: "toFixed (511999 / 512) 2 = ''1000.00''"
    by (simp add: toFixed_def evals)
  have b: "currencyUSD (511999 / 512) = ''$1,000.00''"
    by (simp add: currencyUSD_def group3_def evals)
  show ?thesis
    by (simp add: formatPrice_card_def formatPrice_modal_def a b)
qed

section \<open>Chart geometry: the claims\<close>

lemmas viewport = W_def H_def PAD_top_def PAD_right_def PAD_bottom_def PAD_left_def
  chartW_def chartH_def

lemma flat_iff:
  assumes "cd \<noteq> []"
  shows "(maxP cd = minP cd) = (\<not> (\<exists>a \<in> set cd. \<exists>b \<in> set cd. price a \<noteq> price b))"
proof -
  define S where "S = set (prices cd)"
  have fin: "finite S" and ne: "S \<noteq> {}" using assms by (simp_all add: S_def prices_def)
  have S: "S = price ` set cd" by (simp add: S_def prices_def)
  show ?thesis
  proof
    assume eq: "maxP cd = minP cd"
    have "x = Min S" if "x \<in> S" for x
    proof -
      have "Min S \<le> x" "x \<le> Max S" using that fin by simp_all
      then show ?thesis using eq by (simp add: maxP_def minP_def S_def)
    qed
    then show "\<not> (\<exists>a \<in> set cd. \<exists>b \<in> set cd. price a \<noteq> price b)"
      unfolding S by (metis imageI)
  next
    assume flat: "\<not> (\<exists>a \<in> set cd. \<exists>b \<in> set cd. price a \<noteq> price b)"
    have "Max S \<in> S" "Min S \<in> S" using fin ne by simp_all
    then obtain a b where ab: "a \<in> set cd" "Max S = price a" "b \<in> set cd" "Min S = price b"
      unfolding S by blast
    then have "price a = price b" using flat by blast
    then show "maxP cd = minP cd"
      using ab by (simp add: maxP_def minP_def S_def)
  qed
qed

lemma scaleY_minP: "scaleY cd (minP cd) = PAD_top + chartH"
  by (simp add: scaleY_def)

lemma scaleY_maxP:
  "scaleY cd (maxP cd) = (if maxP cd = minP cd then PAD_top + chartH else PAD_top)"
  by (simp add: scaleY_def rangeP_def)

text \<open>
  Claim C5, as the code has it: for a series of at least two samples, \<open>scaleY\<close> maps
  the minimum price to the bottom edge of the plot area (top padding plus plot height); it
  maps the maximum price to the top edge (the top padding) when two samples differ in
  price, and to the bottom edge when all prices are equal, where the range is replaced by 1.
\<close>

theorem scaleY_extremes:
  assumes "2 \<le> length cd"
  shows "scaleY cd (minP cd) = PAD_top + chartH
         \<and> scaleY cd (maxP cd) =
             (if \<exists>a \<in> set cd. \<exists>b \<in> set cd. price a \<noteq> price b then PAD_top
              else PAD_top + chartH)"
proof -
  have "cd \<noteq> []" using assms by auto
  then have f: "(maxP cd = minP cd) = (\<not> (\<exists>a \<in> set cd. \<exists>b \<in> set cd. price a \<noteq> price b))"
    by (rule flat_iff)
  show ?thesis
  proof (cases "\<exists>a \<in> set cd. \<exists>b \<in> set cd. price a \<noteq> price b")
    case True
    then have "maxP cd \<noteq> minP cd" using f by blast
    then have "scaleY cd (maxP cd) = PAD_top" by (simp add: scaleY_maxP)
    then show ?thesis using True scaleY_minP [of cd] by presburger
  next
    case False
    then have "maxP cd = minP cd" using f by blast
    then have "scaleY cd (maxP cd) = PAD_top + chartH" by (simp add: scaleY_minP)
    then show ?thesis using False scaleY_minP [of cd] by presburger
  qed
qed

lemma two_prices:
  "minP [\<lparr>date = s, price = p\<rparr>, \<lparr>date = t, price = q\<rparr>] = min p q"
  "maxP [\<lparr>date = s, price = p\<rparr>, \<lparr>date = t, price = q\<rparr>] = max p q"
  by (simp_all add: minP_def maxP_def prices_def)

lemma one_price:
  "minP [\<lparr>date = s, price = p\<rparr>] = p"
  "maxP [\<lparr>date = s, price = p\<rparr>] = p"
  by (simp_all add: minP_def maxP_def prices_def)

theorem scaleY_extremes_witness:
  "2 \<le> length [\<lparr>date = 0, price = 1\<rparr>, \<lparr>date = 1, price = 3\<rparr>]
   \<and> scaleY [\<lparr>date = 0, price = 1\<rparr>, \<lparr>date = 1, price = 3\<rparr>] 1 = 260
   \<and> scaleY [\<lparr>date = 0, price = 1\<rparr>, \<lparr>date = 1, price = 3\<rparr>] 3 = 20"
proof -
  let ?cd = "[\<lparr>date = 0, price = 1\<rparr>, \<lparr>date = 1, price = 3\<rparr>]"
  have h: "2 \<le> length ?cd" by simp
  have e: "\<exists>a \<in> set ?cd. \<exists>b \<in> set ?cd. price a \<noteq> price b"
    by (rule bexI [of _ "\<lparr>date = 0, price = 1\<rparr>"], rule bexI [of _ "\<lparr>date = 1, price = 3\<rparr>"])
      simp_all
  have m: "minP ?cd = 1" "maxP ?cd = 3" by (simp_all add: two_prices)
  have "scaleY ?cd (minP ?cd) = PAD_top + chartH \<and> scaleY ?cd (maxP ?cd) = PAD_top"
    using scaleY_extremes [OF h] e by presburger
  then show ?thesis unfolding m by (simp add: viewport)
qed

text \<open>
  Claim C5 as stated fails on a flat series: with two samples of price 5 the maximum is
  drawn at 260, the bottom edge, not at the top padding 20.
\<close>

theorem scaleY_flat_counterexample:
  "2 \<le> length [\<lparr>date = 0, price = 5\<rparr>, \<lparr>date = 1, price = 5\<rparr>]
   \<and> maxP [\<lparr>date = 0, price = 5\<rparr>, \<lparr>date = 1, price = 5\<rparr>] = 5
   \<and> scaleY [\<lparr>date = 0, price = 5\<rparr>, \<lparr>date = 1, price = 5\<rparr>] 5 = 260
   \<and> PAD_top = 20
   \<and> scaleY [\<lparr>date = 0, price = 5\<rparr>, \<lparr>date = 1, price = 5\<rparr>]
        (maxP [\<lparr>date = 0, price = 5\<rparr>, \<lparr>date = 1, price = 5\<rparr>]) \<noteq> PAD_top"
  by (simp add: two_prices scaleY_def rangeP_def viewport)











text \<open>
  The hover rectangles of a series of at least two samples: each is centred on the x
  position of its sample and as wide as the plot divided by the number of samples, the
  rectangle entered sets the hovered sample to its own, no two of them overlap, and the
  point halfway between the first two samples lies in none of them.
\<close>

lemma scaleX_finite:
  assumes "2 \<le> length cd"
  shows "scaleX cd i = Fin (PAD_left + i / (of_nat (length cd) - 1) * chartW)"
proof -
  have "(of_nat (length cd) :: rat) - 1 \<noteq> 0" using assms by auto
  then show ?thesis by (simp add: scaleX_def js_div_def)
qed

lemma hoverRect_finite:
  assumes "2 \<le> length cd"
  shows "rect_x (hoverRect cd i) =
           Fin (PAD_left + of_nat i / (of_nat (length cd) - 1) * chartW
                - chartW / of_nat (length cd) / 2)"
    and "rect_width (hoverRect cd i) = chartW / of_nat (length cd)"
  by (simp_all add: hoverRect_def scaleX_finite [OF assms] js_sub_def)

lemma hover_yields_sample:
  assumes "i < length (chartData s)"
  shows "\<exists>h. hovered (onMouseEnter i s) = Some h
             \<and> date h = date (chartData s ! i) \<and> price h = price (chartData s ! i)
             \<and> hover_x h = scaleX (chartData s) (of_nat i)"
  using assms by (simp add: onMouseEnter_def hoverPoint_def Let_def)

lemma hover_bands_disjoint:
  assumes "2 \<le> length cd" "i < j" "j < length cd"
    "rect_covers (hoverRect cd i) px"
  shows "\<not> rect_covers (hoverRect cd j) px"
proof -
  define n :: rat where "n = of_nat (length cd)"
  have n: "2 \<le> n" using assms(1) by (simp add: n_def)
  have cw: "0 < chartW" by (simp add: chartW_def W_def PAD_left_def PAD_right_def)
  define w where "w = chartW / n"
  define g where "g = chartW / (n - 1)"
  have wg: "w < g" unfolding w_def g_def using n cw by (simp add: frac_less2)
  have g0: "0 < g" unfolding g_def using n cw by simp
  have "(of_nat i :: rat) + 1 \<le> of_nat j" using assms(2) by (simp add: of_nat_Suc [symmetric] del: of_nat_Suc)
  then have "(of_nat i + 1) * g \<le> of_nat j * g" using g0 by (simp add: mult_right_mono)
  then have step: "of_nat i * g + g \<le> of_nat j * g" by (simp add: algebra_simps)
  have xi: "rect_x (hoverRect cd i) = Fin (PAD_left + of_nat i * g - w / 2)"
    and xj: "rect_x (hoverRect cd j) = Fin (PAD_left + of_nat j * g - w / 2)"
    and wi: "rect_width (hoverRect cd i) = w" and wj: "rect_width (hoverRect cd j) = w"
    using hoverRect_finite [OF assms(1)] by (simp_all add: g_def w_def n_def)
  have "px < PAD_left + of_nat i * g - w / 2 + w"
    using assms(4) by (simp add: rect_covers_def xi wi)
  then have "px < PAD_left + of_nat j * g - w / 2" using step wg by linarith
  then show ?thesis by (simp add: rect_covers_def xj wj)
qed


lemma hover_bands_gap:
  assumes "2 \<le> length cd"
  shows "PAD_left \<le> PAD_left + chartW / (of_nat (length cd) - 1) / 2
         \<and> PAD_left + chartW / (of_nat (length cd) - 1) / 2 \<le> PAD_left + chartW
         \<and> \<not> rect_covers (hoverRect cd i) (PAD_left + chartW / (of_nat (length cd) - 1) / 2)"
proof -
  define n :: rat where "n = of_nat (length cd)"
  have n: "2 \<le> n" using assms(1) by (simp add: n_def)
  have cw: "0 < chartW" by (simp add: chartW_def W_def PAD_left_def PAD_right_def)
  define w where "w = chartW / n"
  define g where "g = chartW / (n - 1)"
  have wg: "w < g" unfolding w_def g_def using n cw by (simp add: frac_less2)
  have g0: "0 < g" unfolding g_def using n cw by simp
  have gc: "g \<le> chartW" unfolding g_def using n cw by (simp add: field_simps)
  have xi: "rect_x (hoverRect cd i) = Fin (PAD_left + of_nat i * g - w / 2)"
    and wi: "rect_width (hoverRect cd i) = w"
    using hoverRect_finite [OF assms(1)] by (simp_all add: g_def w_def n_def)
  have nc: "\<not> (PAD_left + of_nat i * g - w / 2 \<le> PAD_left + g / 2
             \<and> PAD_left + g / 2 < PAD_left + of_nat i * g - w / 2 + w)"
  proof (cases i)
    case 0
    then show ?thesis using wg by simp
  next
    case (Suc k)
    have "0 \<le> of_nat k * g" using g0 by simp
    then have "g \<le> of_nat i * g" unfolding Suc by (simp add: algebra_simps)
    then show ?thesis using wg by linarith
  qed
  have A: "PAD_left \<le> PAD_left + g / 2" using g0 by simp
  have B: "PAD_left + g / 2 \<le> PAD_left + chartW" using gc g0 by simp
  have C: "\<not> rect_covers (hoverRect cd i) (PAD_left + g / 2)"
    using nc by (simp add: rect_covers_def xi wi)
  show ?thesis using A B C unfolding g_def n_def by blast
qed

text \<open>
  Claim C3: the hover rectangles cover the whole plot width, so that every pointer position
  inside the plot lies in exactly one of them. For a series of two samples the rectangles
  are 360 wide and centred on 60 and 780: the position 400, inside the plot, lies in
  neither of them.
\<close>

theorem hover_bands_leave_gap:
  "length [\<lparr>date = 0, price = 1\<rparr>, \<lparr>date = 1, price = 2\<rparr>] = 2
   \<and> PAD_left \<le> 400 \<and> 400 \<le> PAD_left + chartW
   \<and> scaleX [\<lparr>date = 0, price = 1\<rparr>, \<lparr>date = 1, price = 2\<rparr>] 0 = Fin 60
   \<and> scaleX [\<lparr>date = 0, price = 1\<rparr>, \<lparr>date = 1, price = 2\<rparr>] 1 = Fin 780
   \<and> rect_x (hoverRect [\<lparr>date = 0, price = 1\<rparr>, \<lparr>date = 1, price = 2\<rparr>] 0) = Fin (- 120)
   \<and> rect_x (hoverRect [\<lparr>date = 0, price = 1\<rparr>, \<lparr>date = 1, price = 2\<rparr>] 1) = Fin 600
   \<and> rect_width (hoverRect [\<lparr>date = 0, price = 1\<rparr>, \<lparr>date = 1, price = 2\<rparr>] 0) = 360
   \<and> rect_width (hoverRect [\<lparr>date = 0, price = 1\<rparr>, \<lparr>date = 1, price = 2\<rparr>] 1) = 360
   \<and> \<not> rect_covers (hoverRect [\<lparr>date = 0, price = 1\<rparr>, \<lparr>date = 1, price = 2\<rparr>] 0) 400
   \<and> \<not> rect_covers (hoverRect [\<lparr>date = 0, price = 1\<rparr>, \<lparr>date = 1, price = 2\<rparr>] 1) 400"
  by (simp add: hoverRect_def rect_covers_def scaleX_def js_div_def js_sub_def viewport)

text \<open>
  Claim C7: for a series of exactly one sample the geometry is free of NaN and the point
  is placed at the left padding. The chart is drawn for such a series, and \<open>scaleX\<close>
  divides zero by zero: the x coordinate of the point, of its hover rectangle and of its
  marker is NaN, and the line path is \<open>M NaN,260.0\<close>.
\<close>

theorem single_sample_is_NaN:
  "renderChart [\<lparr>date = 0, price = 5\<rparr>] \<noteq> None
   \<and> scaleX [\<lparr>date = 0, price = 5\<rparr>] 0 = NaN
   \<and> scaleY [\<lparr>date = 0, price = 5\<rparr>] 5 = 260
   \<and> linePath [\<lparr>date = 0, price = 5\<rparr>] = ''M NaN,260.0''
   \<and> rect_x (hoverRect [\<lparr>date = 0, price = 5\<rparr>] 0) = NaN
   \<and> hover_x (hoverPoint [\<lparr>date = 0, price = 5\<rparr>] 0) = NaN"
proof -
  let ?cd = "[\<lparr>date = 0, price = 5\<rparr>]"
  have x: "scaleX ?cd 0 = NaN" by (simp add: scaleX_def js_div_def)
  have y: "scaleY ?cd 5 = 260" by (simp add: scaleY_def one_price rangeP_def viewport)
  have "toFixed 260 1 = take (length ''2600'' - 1) ''2600'' @ ''.'' @ drop (length ''2600'' - 1) ''2600''"
    by (rule toFixed_placed) (simp_all add: evals)
  then have f: "toFixed 260 (Suc 0) = ''260.0''" by simp
  have p: "linePath ?cd = ''M NaN,260.0''"
    by (simp add: linePath_def enumerate_eq_zip x y f)
  have r: "rect_x (hoverRect ?cd 0) = NaN" by (simp add: hoverRect_def x js_sub_def)
  have h: "hover_x (hoverPoint ?cd 0) = NaN" by (simp add: hoverPoint_def x)
  have c: "renderChart ?cd \<noteq> None" by (simp add: renderChart_def)
  show ?thesis using x y p r h c by blast
qed

section \<open>The search filter: the claims\<close>





text \<open>The scenario of the search term on Bitcoin and Ethereum.\<close>

lemma filterCryptos_bit:
  "filterCryptos ''Bit''
     [\<lparr>coin_id = ''bitcoin'', name = ''Bitcoin'', symbol = ''btc'', current_price = Some 60000\<rparr>,
      \<lparr>coin_id = ''ethereum'', name = ''Ethereum'', symbol = ''eth'', current_price = Some 3000\<rparr>]
   = [\<lparr>coin_id = ''bitcoin'', name = ''Bitcoin'', symbol = ''btc'', current_price = Some 60000\<rparr>]"
  by (simp add: filterCryptos_def toLowerCase_def Let_def)


section \<open>The instrument list: the claims\<close>

text \<open>
  Claim C2, as the code has it: when a refresh fails, by a rejected fetch or a response
  whose status is outside 200 to 299, the instrument list and the visible list stay as
  they were, the error message is exactly \<open>Failed to load data. Please try again.\<close>,
  and \<open>App\<close> renders this message in place of the list, which it draws only while
  there is no error.
\<close>

theorem failed_refresh_keeps_store:
  assumes "r = Rejected \<or> (\<exists>body. r = Http status body \<and> \<not> response_ok status)"
  shows "cryptos (fetchCryptos s) = cryptos s
         \<and> cryptos (fetchCryptos_resume r s) = cryptos s
         \<and> filtered (fetchCryptos_resume r s) = filtered s
         \<and> error (fetchCryptos_resume r s) = Some ''Failed to load data. Please try again.''
         \<and> loading (fetchCryptos_resume r s) = False
         \<and> error_shown (render (fetchCryptos_resume r s))
             = Some ''Failed to load data. Please try again.''
         \<and> list_shown (render (fetchCryptos_resume r s)) = None"
proof -
  have "fetchCryptos_resume r s = fetchCryptos_catch s"
    using assms by (auto simp: fetchCryptos_resume_def)
  then show ?thesis
    by (simp add: fetchCryptos_catch_def fetchCryptos_def render_def truthy_def)
qed

theorem failed_refresh_keeps_store_witness:
  "\<not> response_ok 429
   \<and> cryptos (fetchCryptos_resume (Http 429 None)
        \<lparr>cryptos = [\<lparr>coin_id = ''bitcoin'', name = ''Bitcoin'', symbol = ''btc'',
                       current_price = Some 60000\<rparr>],
         filtered = [\<lparr>coin_id = ''bitcoin'', name = ''Bitcoin'', symbol = ''btc'',
                       current_price = Some 60000\<rparr>],
         search = [], selected = None, loading = False, error = None\<rparr>)
       = [\<lparr>coin_id = ''bitcoin'', name = ''Bitcoin'', symbol = ''btc'',
            current_price = Some 60000\<rparr>]
   \<and> error (fetchCryptos_resume (Http 429 None)
        \<lparr>cryptos = [\<lparr>coin_id = ''bitcoin'', name = ''Bitcoin'', symbol = ''btc'',
                       current_price = Some 60000\<rparr>],
         filtered = [\<lparr>coin_id = ''bitcoin'', name = ''Bitcoin'', symbol = ''btc'',
                       current_price = Some 60000\<rparr>],
         search = [], selected = None, loading = False, error = None\<rparr>)
       = Some ''Failed to load data. Please try again.''"
proof -
  have h: "\<not> response_ok 429" by (simp add: response_ok_def)
  then have "Http 429 None = Rejected \<or> (\<exists>body. Http 429 None = Http 429 body \<and> \<not> response_ok 429)"
    by simp
  from failed_refresh_keeps_store [OF this] h show ?thesis by simp
qed

text \<open>
  Claim C2 as stated fails in its last part: with a loaded list on screen, a refresh
  answered by status 429 leaves no list on screen.
\<close>

theorem failed_refresh_hides_list:
  "\<not> response_ok 429
   \<and> list_shown (render
        \<lparr>cryptos = [\<lparr>coin_id = ''bitcoin'', name = ''Bitcoin'', symbol = ''btc'',
                       current_price = Some 60000\<rparr>],
         filtered = [\<lparr>coin_id = ''bitcoin'', name = ''Bitcoin'', symbol = ''btc'',
                       current_price = Some 60000\<rparr>],
         search = [], selected = None, loading = False, error = None\<rparr>)
       = Some [\<lparr>coin_id = ''bitcoin'', name = ''Bitcoin'', symbol = ''btc'',
                 current_price = Some 60000\<rparr>]
   \<and> list_shown (render (fetchCryptos_resume (Http 429 None) (fetchCryptos
        \<lparr>cryptos = [\<lparr>coin_id = ''bitcoin'', name = ''Bitcoin'', symbol = ''btc'',
                       current_price = Some 60000\<rparr>],
         filtered = [\<lparr>coin_id = ''bitcoin'', name = ''Bitcoin'', symbol = ''btc'',
                       current_price = Some 60000\<rparr>],
         search = [], selected = None, loading = False, error = None\<rparr>)))
       = None"
  by (simp add: response_ok_def render_def truthy_def fetchCryptos_resume_def
      fetchCryptos_catch_def fetchCryptos_def)

section \<open>The chart modal: the claims\<close>

lemma resume_first_of_two:
  assumes "inflight s = [a, b]"
  shows "fetchChartData_resume 0 (Prices ps) s
           = s\<lparr>inflight := [b], chartData := points ps, loadingChart := False\<rparr>"
    and "fetchChartData_resume (Suc 0) (Prices ps) s
           = s\<lparr>inflight := [a], chartData := points ps, loadingChart := False\<rparr>"
  using assms by (simp_all add: fetchChartData_resume_def Let_def)

lemma resume_only_one:
  assumes "inflight s = [a]"
  shows "fetchChartData_resume 0 (Prices ps) s
           = s\<lparr>inflight := [], chartData := points ps, loadingChart := False\<rparr>"
  using assms by (simp add: fetchChartData_resume_def Let_def)

text \<open>
  Claim C1, as the code has it: when a fetch for one key is in flight and a change of the
  period or of the instrument starts a fetch for another key, the series stored after both
  have resolved is the one of the response that resolved last: the series of the new key
  when the responses arrive in the order of their requests, and the series of the old key
  when the old request resolves after the new one.
\<close>

theorem chart_last_response_wins:
  assumes "inflight s = [a]"
    and "s' = setDays d s \<or> s' = setCoin c s"
    and "d \<noteq> days s"
    and "coin_id c \<noteq> coin_id (coin s)"
  shows "inflight s' = [a, (coin_id (coin s'), days s')]
         \<and> chartData (fetchChartData_resume 0 (Prices rb)
                        (fetchChartData_resume 0 (Prices ra) s')) = points rb
         \<and> chartData (fetchChartData_resume 0 (Prices ra)
                        (fetchChartData_resume 1 (Prices rb) s')) = points ra
         \<and> inflight (fetchChartData_resume 0 (Prices ra)
                        (fetchChartData_resume 1 (Prices rb) s')) = []
         \<and> days (fetchChartData_resume 0 (Prices ra)
                        (fetchChartData_resume 1 (Prices rb) s')) = days s'
         \<and> coin (fetchChartData_resume 0 (Prices ra)
                        (fetchChartData_resume 1 (Prices rb) s')) = coin s'"
proof -
  have two: "inflight s' = [a, (coin_id (coin s'), days s')]"
    using assms by (auto simp: setDays_def setCoin_def fetchChartData_def)
  show ?thesis
    using two by (simp add: resume_first_of_two [OF two] resume_only_one)
qed


theorem chart_last_response_wins_witness:
  "inflight (mount \<lparr>coin_id = ''bitcoin'', name = ''Bitcoin'', symbol = ''btc'',
                     current_price = Some 60000\<rparr>) = [(''bitcoin'', 7)]
   \<and> 30 \<noteq> days (mount \<lparr>coin_id = ''bitcoin'', name = ''Bitcoin'', symbol = ''btc'',
                           current_price = Some 60000\<rparr>)
   \<and> chartData (fetchChartData_resume 0 (Prices [(2, 20)])
        (fetchChartData_resume 0 (Prices [(1, 10)])
          (setDays 30 (mount \<lparr>coin_id = ''bitcoin'', name = ''Bitcoin'', symbol = ''btc'',
                               current_price = Some 60000\<rparr>))))
       = [\<lparr>date = 2, price = 20\<rparr>]"
proof -
  let ?btc = "\<lparr>coin_id = ''bitcoin'', name = ''Bitcoin'', symbol = ''btc'',
               current_price = Some 60000\<rparr>"
  let ?eth = "\<lparr>coin_id = ''ethereum'', name = ''Ethereum'', symbol = ''eth'',
               current_price = Some 3000\<rparr>"
  have a: "inflight (mount ?btc) = [(''bitcoin'', 7)]"
    by (simp add: mount_def fetchChartData_def)
  have b: "30 \<noteq> days (mount ?btc)"
    by (simp add: mount_def fetchChartData_def)
  have c: "coin_id ?eth \<noteq> coin_id (coin (mount ?btc))"
    by (simp add: mount_def fetchChartData_def)
  have d: "setDays 30 (mount ?btc) = setDays 30 (mount ?btc) \<or> setDays 30 (mount ?btc) = setCoin ?eth (mount ?btc)"
    by simp
  show ?thesis
    using chart_last_response_wins [OF a d b c, of "[(2, 20)]" "[(1, 10)]"] a b
    by (simp add: points_def)
qed

text \<open>
  Claim C1 as stated fails: the 7-day request of Bitcoin is in flight when the period is
  set to 30; the 30-day response arrives first and the 7-day response after it. With
  both resolved the period is 30 and the stored series is the 7-day one.
\<close>

theorem late_response_overwrites:
  "inflight (setDays 30 (mount \<lparr>coin_id = ''bitcoin'', name = ''Bitcoin'', symbol = ''btc'',
                                  current_price = Some 60000\<rparr>))
     = [(''bitcoin'', 7), (''bitcoin'', 30)]
   \<and> days (fetchChartData_resume 0 (Prices [(1, 10)])
        (fetchChartData_resume 1 (Prices [(2, 20)])
          (setDays 30 (mount \<lparr>coin_id = ''bitcoin'', name = ''Bitcoin'', symbol = ''btc'',
                               current_price = Some 60000\<rparr>)))) = 30
   \<and> inflight (fetchChartData_resume 0 (Prices [(1, 10)])
        (fetchChartData_resume 1 (Prices [(2, 20)])
          (setDays 30 (mount \<lparr>coin_id = ''bitcoin'', name = ''Bitcoin'', symbol = ''btc'',
                               current_price = Some 60000\<rparr>)))) = []
   \<and> chartData (fetchChartData_resume 0 (Prices [(1, 10)])
        (fetchChartData_resume 1 (Prices [(2, 20)])
          (setDays 30 (mount \<lparr>coin_id = ''bitcoin'', name = ''Bitcoin'', symbol = ''btc'',
                               current_price = Some 60000\<rparr>))))
       = [\<lparr>date = 1, price = 10\<rparr>]
   \<and> chartData (fetchChartData_resume 0 (Prices [(1, 10)])
        (fetchChartData_resume 1 (Prices [(2, 20)])
          (setDays 30 (mount \<lparr>coin_id = ''bitcoin'', name = ''Bitcoin'', symbol = ''btc'',
                               current_price = Some 60000\<rparr>))))
       \<noteq> points [(2, 20)]"
  by (simp add: mount_def setDays_def fetchChartData_def fetchChartData_resume_def Let_def
      points_def)

text \<open>
  Claim C4, as the code has it: from any hover state, the pointer leaving the chart clears
  the hovered sample; a change of the period, a change of the instrument and the arrival
  of a series leave the hovered sample as it is.
\<close>

theorem hover_reset_only_on_leave:
  "hovered (onMouseLeave s) = None
   \<and> hovered (setDays d s) = hovered s
   \<and> hovered (setCoin c s) = hovered s
   \<and> hovered (fetchChartData_resume k r s) = hovered s"
  by (simp add: onMouseLeave_def setDays_def setCoin_def fetchChartData_def
      fetchChartData_resume_def Let_def split: chart_response.split)

text \<open>
  Claim C4 as stated fails: a sample of the 7-day series is hovered, the period is set to
  30 and the 30-day series arrives. The hovered sample is still the one of the old series.
\<close>

theorem hover_survives_period_change:
  "chartData (fetchChartData_resume 0 (Prices [(3, 30), (4, 40)])
      (setDays 30 (onMouseEnter 1 (fetchChartData_resume 0 (Prices [(1, 10), (2, 20)])
        (mount \<lparr>coin_id = ''bitcoin'', name = ''Bitcoin'', symbol = ''btc'',
                 current_price = Some 60000\<rparr>)))))
     = [\<lparr>date = 3, price = 30\<rparr>, \<lparr>date = 4, price = 40\<rparr>]
   \<and> hovered (fetchChartData_resume 0 (Prices [(3, 30), (4, 40)])
      (setDays 30 (onMouseEnter 1 (fetchChartData_resume 0 (Prices [(1, 10), (2, 20)])
        (mount \<lparr>coin_id = ''bitcoin'', name = ''Bitcoin'', symbol = ''btc'',
                 current_price = Some 60000\<rparr>)))))
     = Some \<lparr>date = 2, price = 20, hover_x = Fin 780, hover_y = 20\<rparr>
   \<and> hovered (fetchChartData_resume 0 (Prices [(3, 30), (4, 40)])
      (setDays 30 (onMouseEnter 1 (fetchChartData_resume 0 (Prices [(1, 10), (2, 20)])
        (mount \<lparr>coin_id = ''bitcoin'', name = ''Bitcoin'', symbol = ''btc'',
                 current_price = Some 60000\<rparr>)))))
     \<noteq> None"
proof -
  let ?btc = "\<lparr>coin_id = ''bitcoin'', name = ''Bitcoin'', symbol = ''btc'',
               current_price = Some 60000\<rparr>"
  let ?A = "[\<lparr>date = 1, price = 10\<rparr>, \<lparr>date = 2, price = 20\<rparr>]"
  have s1: "fetchChartData_resume 0 (Prices [(1, 10), (2, 20)]) (mount ?btc)
              = \<lparr>coin = ?btc, chartData = ?A, loadingChart = False, days = 7,
                 hovered = None, inflight = []\<rparr>"
    by (simp add: mount_def fetchChartData_def fetchChartData_resume_def Let_def points_def)
  have x: "scaleX ?A 1 = Fin 780"
    by (simp add: scaleX_def js_div_def viewport)
  have y: "scaleY ?A 20 = 20"
    by (simp add: scaleY_def two_prices rangeP_def viewport)
  have hp: "hoverPoint ?A (Suc 0) = \<lparr>date = 2, price = 20, hover_x = Fin 780, hover_y = 20\<rparr>"
    using x y by (simp add: hoverPoint_def Let_def)
  have s2: "onMouseEnter 1 (fetchChartData_resume 0 (Prices [(1, 10), (2, 20)]) (mount ?btc))
              = \<lparr>coin = ?btc, chartData = ?A, loadingChart = False, days = 7,
                 hovered = Some \<lparr>date = 2, price = 20, hover_x = Fin 780, hover_y = 20\<rparr>,
                 inflight = []\<rparr>"
    unfolding s1 by (simp add: onMouseEnter_def hp)
  show ?thesis
    unfolding s2
    by (simp add: setDays_def fetchChartData_def fetchChartData_resume_def Let_def points_def)
qed

end
